theory Spec2Isabelle
  imports Complex_Main
begin

section \<open>Numbers, options and the console\<close>

text \<open>
  JavaScript numbers are modelled as \<open>real\<close> (rounding of IEEE doubles is not part of
  the model); \<open>Date.now()\<close> readings are integers (milliseconds). A value that may be
  \<open>null\<close> or \<open>undefined\<close> is an \<open>option\<close>. An exception is a \<open>None\<close> result
  of the call that throws.

  Console output is kept as the list of calls made, in order. The texts of the messages
  are represented by constructors; the payload of a message is the data interpolated
  into it.
\<close>

datatype message =
    AlreadyRunning
  | NotRunning
  | Starting
  | TrackingStarted real
  | SystemInformation
  | LocationDetected string string
  | FailedToStart
  | FailedToStop
  | FailedToMeasure
  | MeasurementLine real real real
  | TotalEnergyLine real
  | TrackingResults
  | TrackingStopped
  | CouldNotGetCpuUsage
  | CouldNotLoadData
  | NoCarbonIntensityData string

datatype console_call = ConsoleLog message | ConsoleWarn message | ConsoleError message

text \<open>\<open>a || b\<close> on a number that may be missing: \<open>0\<close> is falsy, like \<open>null\<close>.\<close>

definition js_or :: "real option \<Rightarrow> real \<Rightarrow> real" where
  "js_or a b = (case a of None \<Rightarrow> b | Some v \<Rightarrow> if v = 0 then b else v)"

text \<open>\<open>a || null\<close> on a number that may be missing.\<close>

definition js_or_null :: "real option \<Rightarrow> real option" where
  "js_or_null a = (case a of None \<Rightarrow> None | Some v \<Rightarrow> if v = 0 then None else Some v)"

text \<open>\<open>a || null\<close> on a string that may be missing: the empty string is falsy.\<close>

definition js_str_or_null :: "string option \<Rightarrow> string option" where
  "js_str_or_null a = (case a of None \<Rightarrow> None | Some v \<Rightarrow> if v = [] then None else Some v)"

definition js_str_or :: "string option \<Rightarrow> string \<Rightarrow> string" where
  "js_str_or a b = (case a of None \<Rightarrow> b | Some v \<Rightarrow> if v = [] then b else v)"

text \<open>A timestamp field that is still \<open>null\<close> counts as \<open>0\<close> in arithmetic.\<close>

definition js_num :: "int option \<Rightarrow> int" where
  "js_num a = (case a of None \<Rightarrow> 0 | Some v \<Rightarrow> v)"

section \<open>Emissions: the carbon-intensity table\<close>

text \<open>
  The table is read from \<open>data/global_energy_mix.json\<close>, a file that is not part of the
  sources at hand; it is a parameter of the model: an object whose keys are country
  codes and whose values are objects with the fields below.
\<close>

record intensity_entry =
  carbon_intensity :: real
  country_name :: string

type_synonym intensity_table = "(string \<times> intensity_entry) list"

definition worldAverageCarbonIntensity :: real where
  "worldAverageCarbonIntensity = 475"

text \<open>\<open>loadCarbonIntensityData\<close>: the file's content, or \<open>{}\<close> with a warning.\<close>

definition loadCarbonIntensityData :: "intensity_table option \<Rightarrow> intensity_table \<times> console_call list" where
  "loadCarbonIntensityData file =
     (case file of
        Some data \<Rightarrow> (data, [])
      | None \<Rightarrow> ([], [ConsoleWarn CouldNotLoadData]))"

definition getCarbonIntensity :: "intensity_table \<Rightarrow> string \<Rightarrow> real \<times> console_call list" where
  "getCarbonIntensity carbonIntensityData countryCode =
     (case map_of carbonIntensityData countryCode of
        Some entry \<Rightarrow> (carbon_intensity entry, [])
      | None \<Rightarrow> (worldAverageCarbonIntensity, [ConsoleWarn (NoCarbonIntensityData countryCode)]))"

definition calculateEmissions :: "intensity_table \<Rightarrow> real \<Rightarrow> string \<Rightarrow> real \<times> console_call list" where
  "calculateEmissions carbonIntensityData energyKWh countryCode =
     (let (carbonIntensity, out) = getCarbonIntensity carbonIntensityData countryCode
      in ((carbonIntensity / 1000) * energyKWh, out))"

section \<open>Geography\<close>

definition countryNames :: "(string \<times> string) list" where
  "countryNames =
     [(''USA'', ''United States''), (''CAN'', ''Canada''), (''GBR'', ''United Kingdom''),
      (''DEU'', ''Germany''), (''FRA'', ''France''), (''ESP'', ''Spain''), (''ITA'', ''Italy''),
      (''JPN'', ''Japan''), (''KOR'', ''South Korea''), (''CHN'', ''China''), (''IND'', ''India''),
      (''BRA'', ''Brazil''), (''RUS'', ''Russia''), (''AUS'', ''Australia''),
      (''NLD'', ''Netherlands''), (''SWE'', ''Sweden''), (''NOR'', ''Norway''),
      (''DNK'', ''Denmark''), (''FIN'', ''Finland'')]"

definition getCountryName :: "string \<Rightarrow> string" where
  "getCountryName countryCode =
     (case map_of countryNames countryCode of Some n \<Rightarrow> n | None \<Rightarrow> ''Unknown'')"

definition usStates :: "(string \<times> real) list" where
  "usStates =
     [(''CA'', 300), (''WA'', 250), (''NY'', 350), (''TX'', 450), (''WV'', 850),
      (''WY'', 900), (''FL'', 500)]"

definition canadianProvinces :: "(string \<times> real) list" where
  "canadianProvinces =
     [(''QC'', 50), (''ON'', 150), (''BC'', 100), (''AB'', 600), (''SK'', 700)]"

text \<open>
  \<open>getRegionalCarbonIntensity\<close>: the value of a recognised state or province, or
  \<open>null\<close> ("use country-level data"). A region is falsy when it is \<open>null\<close> or empty;
  every value of the two tables is non-zero, hence truthy.
\<close>

definition getRegionalCarbonIntensity :: "string \<Rightarrow> string option \<Rightarrow> real option" where
  "getRegionalCarbonIntensity countryCode region =
     (case js_str_or_null region of
        None \<Rightarrow> None
      | Some r \<Rightarrow>
          if countryCode = ''USA'' \<and> map_of usStates r \<noteq> None then map_of usStates r
          else if countryCode = ''CAN'' \<and> map_of canadianProvinces r \<noteq> None
               then map_of canadianProvinces r
          else None)"

record location =
  loc_countryCode :: string
  loc_countryName :: string
  loc_region :: "string option"

section \<open>Hardware readings\<close>

text \<open>
  What the hardware tracker observes during one tick. Each component is \<open>None\<close> when
  the corresponding call throws:
  \<^item> \<open>hw_tdp\<close>: the result of \<open>estimateTDPFromModel\<close> on the CPU's model name;
  \<^item> \<open>hw_load\<close>: the load reported by \<open>si.currentLoad()\<close>;
  \<^item> \<open>hw_ram\<close>: the \<open>power\<close> field of \<open>getRAMInfo()\<close>;
  \<^item> \<open>hw_gpu\<close>: the \<open>power\<close> field of \<open>getGPUInfo()\<close>.
\<close>

record hw_reading =
  hw_tdp :: "real option"
  hw_load :: "real option"
  hw_ram :: "real option"
  hw_gpu :: "real option"

definition getCPUUsage :: "real option \<Rightarrow> real \<times> console_call list" where
  "getCPUUsage load =
     (case load of
        Some currentLoad \<Rightarrow> (currentLoad, [])
      | None \<Rightarrow> (50, [ConsoleWarn CouldNotGetCpuUsage]))"

record cpu_power_info =
  power :: real
  usage :: real

definition estimateCPUPower :: "hw_reading \<Rightarrow> cpu_power_info option \<times> console_call list" where
  "estimateCPUPower hw =
     (let (cpuUsage, out) = getCPUUsage (hw_load hw)
      in case hw_tdp hw of
           None \<Rightarrow> (None, out)
         | Some tdp \<Rightarrow>
             (let loadFactor = cpuUsage / 100;
                  basePowerRatio = 1 / 2;
                  actualPower = tdp * (basePowerRatio + (loadFactor * (1 / 2)))
              in (Some \<lparr>power = actualPower, usage = cpuUsage\<rparr>, out)))"

section \<open>The emissions tracker\<close>

record measurement =
  timestamp :: int
  duration :: real
  cpuPower :: real
  ramPower :: real
  gpuPower :: real
  cpuEnergy :: real
  ramEnergy :: real
  gpuEnergy :: real
  totalEnergyAt :: real
  cpuUsage :: real

record options =
  opt_measurePowerSecs :: "real option"
  opt_countryCode :: "string option"
  opt_region :: "string option"
  opt_logLevel :: "string option"
  opt_pue :: "real option"
  opt_forceCpuPower :: "real option"
  opt_forceRamPower :: "real option"
  opt_forceGpuPower :: "real option"

text \<open>
  The tracker object. \<open>measurementInterval\<close> tells whether the periodic timer is set;
  \<open>carbonIntensityData\<close> is the table held by the tracker's \<open>Emissions\<close> component;
  \<open>console\<close> is the output written so far. The system information is assigned together
  with \<open>locationInfo\<close> and is not modelled beyond that.
\<close>

record tracker =
  measurePowerInterval :: real
  countryCode :: "string option"
  region :: "string option"
  logLevel :: string
  pue :: real
  forceCpuPower :: "real option"
  forceRamPower :: "real option"
  forceGpuPower :: "real option"
  isTracking :: bool
  startTime :: "int option"
  endTime :: "int option"
  measurementInterval :: bool
  totalCpuEnergy :: real
  totalRamEnergy :: real
  totalGpuEnergy :: real
  totalEnergy :: real
  measurements :: "measurement list"
  locationInfo :: "location option"
  carbonIntensityData :: intensity_table
  console :: "console_call list"

definition say :: "console_call list \<Rightarrow> tracker \<Rightarrow> tracker" where
  "say out s = s\<lparr>console := console s @ out\<rparr>"

definition constructor :: "options \<Rightarrow> intensity_table option \<Rightarrow> tracker" where
  "constructor opts file =
     (let (data, out) = loadCarbonIntensityData file
      in \<lparr>measurePowerInterval = js_or (opt_measurePowerSecs opts) 15 * 1000,
          countryCode = js_str_or_null (opt_countryCode opts),
          region = js_str_or_null (opt_region opts),
          logLevel = js_str_or (opt_logLevel opts) ''INFO'',
          pue = js_or (opt_pue opts) 1,
          forceCpuPower = js_or_null (opt_forceCpuPower opts),
          forceRamPower = js_or_null (opt_forceRamPower opts),
          forceGpuPower = js_or_null (opt_forceGpuPower opts),
          isTracking = False,
          startTime = None,
          endTime = None,
          measurementInterval = False,
          totalCpuEnergy = 0,
          totalRamEnergy = 0,
          totalGpuEnergy = 0,
          totalEnergy = 0,
          measurements = [],
          locationInfo = None,
          carbonIntensityData = data,
          console = out\<rparr>)"

text \<open>
  \<open>initializeSystemInfo\<close>: the outcome of the external queries is an input. Reading the
  system information may throw; the location is the configured one when a country code
  is configured, and the detected one otherwise.
\<close>

datatype init_outcome = InitThrows | InitOk location

definition initializeSystemInfo :: "tracker \<Rightarrow> init_outcome \<Rightarrow> tracker option" where
  "initializeSystemInfo s init =
     (case init of
        InitThrows \<Rightarrow> None
      | InitOk detected \<Rightarrow>
          (let loc = (case countryCode s of
                        Some c \<Rightarrow> \<lparr>loc_countryCode = c, loc_countryName = getCountryName c,
                                   loc_region = region s\<rparr>
                      | None \<Rightarrow> detected)
           in Some (say [ConsoleLog (LocationDetected (loc_countryName loc) (loc_countryCode loc))]
                      (s\<lparr>locationInfo := Some loc\<rparr>))))"

text \<open>The time since the last measurement, in seconds, as a tick computes it.\<close>

definition timeSinceLastMeasurement :: "tracker \<Rightarrow> int \<Rightarrow> real" where
  "timeSinceLastMeasurement s measurementTime =
     (if length (measurements s) > 0
      then real_of_int (measurementTime - timestamp (last (measurements s))) / 1000
      else measurePowerInterval s / 1000)"

definition measurePowerAndEnergy :: "tracker \<Rightarrow> int \<Rightarrow> hw_reading \<Rightarrow> tracker" where
  "measurePowerAndEnergy s measurementTime hw =
     (if \<not> isTracking s then s
      else
        let t = timeSinceLastMeasurement s measurementTime;
            (cpuInfo, out) = estimateCPUPower hw
        in case (cpuInfo, hw_ram hw, hw_gpu hw) of
             (Some cpu, Some ramInfoPower, Some gpuInfoPower) \<Rightarrow>
               (let cpuP = js_or (forceCpuPower s) (power cpu);
                    ramP = js_or (forceRamPower s) ramInfoPower;
                    gpuP = js_or (forceGpuPower s) gpuInfoPower;
                    cpuE = (cpuP * t) / (1000 * 3600);
                    ramE = (ramP * t) / (1000 * 3600);
                    gpuE = (gpuP * t) / (1000 * 3600);
                    adjustedCpuEnergy = cpuE * pue s;
                    adjustedRamEnergy = ramE * pue s;
                    adjustedGpuEnergy = gpuE * pue s;
                    newCpu = totalCpuEnergy s + adjustedCpuEnergy;
                    newRam = totalRamEnergy s + adjustedRamEnergy;
                    newGpu = totalGpuEnergy s + adjustedGpuEnergy;
                    newTotal = newCpu + newRam + newGpu;
                    m = \<lparr>timestamp = measurementTime, duration = t,
                         cpuPower = cpuP, ramPower = ramP, gpuPower = gpuP,
                         cpuEnergy = adjustedCpuEnergy, ramEnergy = adjustedRamEnergy,
                         gpuEnergy = adjustedGpuEnergy, totalEnergyAt = newTotal,
                         cpuUsage = usage cpu\<rparr>
                in s\<lparr>totalCpuEnergy := newCpu, totalRamEnergy := newRam,
                     totalGpuEnergy := newGpu, totalEnergy := newTotal,
                     measurements := measurements s @ [m],
                     console := console s @ out @
                       (if logLevel s = ''DEBUG''
                        then [ConsoleLog (MeasurementLine cpuP ramP gpuP),
                              ConsoleLog (TotalEnergyLine newTotal)]
                        else [])\<rparr>)
           | _ \<Rightarrow> say (out @ [ConsoleError FailedToMeasure]) s)"

definition start :: "tracker \<Rightarrow> init_outcome \<Rightarrow> int \<Rightarrow> int \<Rightarrow> hw_reading \<Rightarrow> tracker" where
  "start s init now measurementTime hw =
     (if isTracking s then say [ConsoleWarn AlreadyRunning] s
      else
        case initializeSystemInfo (say [ConsoleLog Starting] s) init of
          None \<Rightarrow> (say [ConsoleLog Starting, ConsoleError FailedToStart] s)\<lparr>isTracking := False\<rparr>
        | Some s1 \<Rightarrow>
            (let s2 = s1\<lparr>isTracking := True, startTime := Some now,
                         totalCpuEnergy := 0, totalRamEnergy := 0, totalGpuEnergy := 0,
                         totalEnergy := 0, measurements := [],
                         measurementInterval := True\<rparr>;
                 s3 = measurePowerAndEnergy s2 measurementTime hw;
                 s4 = (if logLevel s3 = ''INFO'' then say [ConsoleLog SystemInformation] s3 else s3)
             in say [ConsoleLog (TrackingStarted (measurePowerInterval s4 / 1000))] s4))"

record results =
  emissions :: real
  emissionsRate :: real
  energyConsumed :: real
  res_duration :: real
  res_cpuPower :: real
  res_ramPower :: real
  res_gpuPower :: real
  res_cpuEnergy :: real
  res_ramEnergy :: real
  res_gpuEnergy :: real
  res_countryName :: string
  res_countryCode :: string
  res_region :: "string option"
  res_pue :: real
  res_measurements :: nat
  averageCpuUsage :: real

definition calculateAverageCpuUsage :: "tracker \<Rightarrow> real" where
  "calculateAverageCpuUsage s =
     (if length (measurements s) = 0 then 0
      else (\<Sum>m\<leftarrow>measurements s. cpuUsage m) / real (length (measurements s)))"

text \<open>
  \<open>calculateFinalEmissions\<close> reads \<open>this.locationInfo.countryCode\<close>, which throws while
  \<open>locationInfo\<close> is \<open>null\<close>. The latest power readings are those of the last
  measurement, or \<open>0\<close> when there is none.
\<close>

definition calculateFinalEmissions :: "tracker \<Rightarrow> (results \<times> console_call list) option" where
  "calculateFinalEmissions s =
     (case locationInfo s of
        None \<Rightarrow> None
      | Some loc \<Rightarrow>
          (let dur = real_of_int (js_num (endTime s) - js_num (startTime s)) / 1000;
               (em, out) = calculateEmissions (carbonIntensityData s) (totalEnergy s) (loc_countryCode loc);
               rate = (if dur > 0 then em / dur else 0);
               latest = (if measurements s = [] then None else Some (last (measurements s)))
           in Some (\<lparr>emissions = em, emissionsRate = rate, energyConsumed = totalEnergy s,
                      res_duration = dur,
                      res_cpuPower = (case latest of None \<Rightarrow> 0 | Some m \<Rightarrow> cpuPower m),
                      res_ramPower = (case latest of None \<Rightarrow> 0 | Some m \<Rightarrow> ramPower m),
                      res_gpuPower = (case latest of None \<Rightarrow> 0 | Some m \<Rightarrow> gpuPower m),
                      res_cpuEnergy = totalCpuEnergy s, res_ramEnergy = totalRamEnergy s,
                      res_gpuEnergy = totalGpuEnergy s,
                      res_countryName = loc_countryName loc,
                      res_countryCode = loc_countryCode loc,
                      res_region = loc_region loc, res_pue = pue s,
                      res_measurements = length (measurements s),
                      averageCpuUsage = calculateAverageCpuUsage s\<rparr>, out)))"

text \<open>
  \<open>stop\<close> returns the emissions in kg and the tracker after the call. The two clock
  readings are the one of the final measurement and the one stored as \<open>endTime\<close>.
\<close>

definition stop :: "tracker \<Rightarrow> int \<Rightarrow> hw_reading \<Rightarrow> int \<Rightarrow> real \<times> tracker" where
  "stop s measurementTime hw now =
     (if \<not> isTracking s then (0, say [ConsoleWarn NotRunning] s)
      else
        let s1 = s\<lparr>measurementInterval := False\<rparr>;
            s2 = measurePowerAndEnergy s1 measurementTime hw;
            s3 = s2\<lparr>endTime := Some now, isTracking := False\<rparr>
        in case calculateFinalEmissions s3 of
             None \<Rightarrow> (0, (say [ConsoleError FailedToStop] s3)\<lparr>isTracking := False\<rparr>)
           | Some (res, out) \<Rightarrow>
               (emissions res,
                say (out @ (if logLevel s3 = ''INFO'' then [ConsoleLog TrackingResults] else [])
                         @ [ConsoleLog TrackingStopped]) s3))"

text \<open>
  The events of a tracker's life: the two public calls and the timer firing, each with
  the clock readings and the hardware reading it meets. The timer fires only while it is
  set. Events are taken one after the other: a call runs to its end before the next
  event.
\<close>

datatype event =
    StartEv init_outcome int int hw_reading
  | TimerEv int hw_reading
  | StopEv int hw_reading int

fun step :: "tracker \<Rightarrow> event \<Rightarrow> tracker" where
  "step s (StartEv init now measurementTime hw) = start s init now measurementTime hw"
| "step s (TimerEv measurementTime hw) =
     (if measurementInterval s then measurePowerAndEnergy s measurementTime hw else s)"
| "step s (StopEv measurementTime hw now) = snd (stop s measurementTime hw now)"

fun run :: "tracker \<Rightarrow> event list \<Rightarrow> tracker" where
  "run s [] = s"
| "run s (e # es) = run (step s e) es"

section \<open>Invariants of the accumulators\<close>

text \<open>The total is the sum of the three accumulators.\<close>

definition in_sync :: "tracker \<Rightarrow> bool" where
  "in_sync s \<longleftrightarrow> totalEnergy s = totalCpuEnergy s + totalRamEnergy s + totalGpuEnergy s"




text \<open>A value that may be missing is not negative.\<close>

definition nonneg :: "real option \<Rightarrow> bool" where
  "nonneg a = (case a of None \<Rightarrow> True | Some v \<Rightarrow> 0 \<le> v)"

text \<open>All three calls of the hardware tracker return during the tick.\<close>

definition sampled :: "hw_reading \<Rightarrow> bool" where
  "sampled hw \<longleftrightarrow> hw_tdp hw \<noteq> None \<and> hw_ram hw \<noteq> None \<and> hw_gpu hw \<noteq> None"

text \<open>The configuration cannot produce a negative increment.\<close>

definition nonneg_config :: "tracker \<Rightarrow> bool" where
  "nonneg_config s \<longleftrightarrow>
     0 \<le> pue s \<and> 0 \<le> measurePowerInterval s \<and>
     nonneg (forceCpuPower s) \<and> nonneg (forceRamPower s) \<and> nonneg (forceGpuPower s)"

text \<open>No value that the hardware tracker reports is negative.\<close>

definition nonneg_reading :: "hw_reading \<Rightarrow> bool" where
  "nonneg_reading hw \<longleftrightarrow>
     nonneg (hw_tdp hw) \<and> nonneg (hw_load hw) \<and> nonneg (hw_ram hw) \<and> nonneg (hw_gpu hw)"


section \<open>Example inputs\<close>

definition noOptions :: options where
  "noOptions = \<lparr>opt_measurePowerSecs = None, opt_countryCode = None, opt_region = None,
     opt_logLevel = None, opt_pue = None, opt_forceCpuPower = None,
     opt_forceRamPower = None, opt_forceGpuPower = None\<rparr>"

text \<open>The calibration scenario: cpu 65 W, ram 10 W, gpu 0 W, one-second interval, PUE 1.\<close>

definition calibrated :: "string option \<Rightarrow> options" where
  "calibrated r = \<lparr>opt_measurePowerSecs = Some 1, opt_countryCode = Some ''USA'',
     opt_region = r, opt_logLevel = Some ''WARN'', opt_pue = Some 1,
     opt_forceCpuPower = Some 65, opt_forceRamPower = Some 10,
     opt_forceGpuPower = Some 0\<rparr>"

definition desktop :: hw_reading where
  "desktop = \<lparr>hw_tdp = Some 65, hw_load = Some 50, hw_ram = Some 20, hw_gpu = Some 150\<rparr>"


definition unitedStates :: location where
  "unitedStates = \<lparr>loc_countryCode = ''USA'', loc_countryName = ''United States'',
     loc_region = None\<rparr>"

definition usaTable :: intensity_table where
  "usaTable = [(''USA'', \<lparr>carbon_intensity = 475, country_name = ''United States''\<rparr>)]"

text \<open>Default options but for the location: the United States and a region.\<close>

definition located :: "string option \<Rightarrow> options" where
  "located r = \<lparr>opt_measurePowerSecs = None, opt_countryCode = Some ''USA'', opt_region = r,
     opt_logLevel = None, opt_pue = None, opt_forceCpuPower = None,
     opt_forceRamPower = None, opt_forceGpuPower = None\<rparr>"

text \<open>A tracker with default options and no data file, started at clock reading 2000.\<close>

definition running :: tracker where
  "running = start (constructor noOptions None) (InitOk unitedStates) 2000 2000 desktop"

section \<open>Evaluation of the example inputs\<close>

lemmas tracker_defs =
  start_def stop_def constructor_def loadCarbonIntensityData_def initializeSystemInfo_def
  say_def Let_def js_or_def js_or_null_def js_str_or_def js_str_or_null_def js_num_def
  measurePowerAndEnergy_def timeSinceLastMeasurement_def estimateCPUPower_def getCPUUsage_def
  calculateFinalEmissions_def calculateEmissions_def getCarbonIntensity_def
  worldAverageCarbonIntensity_def getCountryName_def countryNames_def
  calculateAverageCpuUsage_def

lemma running_eq:
  "running =
   \<lparr>measurePowerInterval = 15000, countryCode = None, region = None,
     logLevel = ''INFO'', pue = 1, forceCpuPower = None,
     forceRamPower = None, forceGpuPower = None, isTracking = True,
     startTime = Some 2000, endTime = None, measurementInterval = True,
     totalCpuEnergy = 13 / 64000, totalRamEnergy = 1 / 12000,
     totalGpuEnergy = 1 / 1600, totalEnergy = 7 / 7680,
     measurements =
       [\<lparr>timestamp = 2000, duration = 15, cpuPower = 195 / 4, ramPower = 20,
          gpuPower = 150, cpuEnergy = 13 / 64000, ramEnergy = 1 / 12000,
          gpuEnergy = 1 / 1600, totalEnergyAt = 7 / 7680, cpuUsage = 50\<rparr>],
     locationInfo = Some unitedStates,
     carbonIntensityData = [],
     console =
       [ConsoleWarn CouldNotLoadData, ConsoleLog Starting,
        ConsoleLog (LocationDetected ''United States'' ''USA''),
        ConsoleLog SystemInformation, ConsoleLog (TrackingStarted 15)]\<rparr>"
  by (simp add: running_def tracker_defs noOptions_def desktop_def unitedStates_def)

section \<open>The total is the sum of the accumulators\<close>

lemma in_sync_say: "in_sync (say out s) = in_sync s"
  by (simp add: in_sync_def say_def)

lemma measure_in_sync: "in_sync s \<Longrightarrow> in_sync (measurePowerAndEnergy s t hw)"
  by (simp add: in_sync_def measurePowerAndEnergy_def say_def Let_def
      split: prod.splits option.splits)

lemma measure_resync:
  "measurements (measurePowerAndEnergy s t hw) \<noteq> measurements s \<Longrightarrow>
   in_sync (measurePowerAndEnergy s t hw)"
  by (simp add: in_sync_def measurePowerAndEnergy_def say_def Let_def
      split: prod.splits option.splits if_splits)

lemma in_sync_reset:
  "in_sync (s\<lparr>isTracking := b, startTime := st, totalCpuEnergy := 0, totalRamEnergy := 0,
      totalGpuEnergy := 0, totalEnergy := 0, measurements := [], measurementInterval := c\<rparr>)"
  by (simp add: in_sync_def)

lemma start_in_sync: "in_sync s \<Longrightarrow> in_sync (start s init now t hw)"
  by (cases init)
     (simp_all add: start_def initializeSystemInfo_def Let_def in_sync_say
        measure_in_sync in_sync_reset, simp_all add: in_sync_def say_def)

lemma stop_in_sync: "in_sync s \<Longrightarrow> in_sync (snd (stop s t hw now))"
proof -
  assume a: "in_sync s"
  have "in_sync (s\<lparr>measurementInterval := False\<rparr>)"
    using a by (simp add: in_sync_def)
  then have "in_sync (measurePowerAndEnergy (s\<lparr>measurementInterval := False\<rparr>) t hw)"
    by (rule measure_in_sync)
  then have c: "in_sync ((measurePowerAndEnergy (s\<lparr>measurementInterval := False\<rparr>) t hw)
      \<lparr>endTime := Some now, isTracking := False\<rparr>)"
    by (simp add: in_sync_def)
  show ?thesis
    using a c
    by (simp add: stop_def Let_def in_sync_say split: option.splits prod.splits)
       (simp add: in_sync_def say_def)
qed

lemma step_in_sync: "in_sync s \<Longrightarrow> in_sync (step s e)"
  by (cases e) (simp_all add: start_in_sync stop_in_sync measure_in_sync)

lemma run_in_sync: "in_sync s \<Longrightarrow> in_sync (run s es)"
  by (induction es arbitrary: s) (simp_all add: step_in_sync)

lemma constructor_in_sync: "in_sync (constructor opts file)"
  by (simp add: constructor_def in_sync_def loadCarbonIntensityData_def split: option.splits)

text \<open>
  C5: in every state that a tracker reaches from its construction, by any sequence of
  \<open>start()\<close>, timer ticks and \<open>stop()\<close>, the total energy is exactly the sum of the cpu,
  ram and gpu accumulators. The total is recomputed by the tick and not incremented:
  whatever the total was before, a tick that records a measurement leaves it equal to the
  sum of the three accumulators.
\<close>

theorem total_is_sum_of_accumulators:
  "totalEnergy (run (constructor opts file) evs) =
     totalCpuEnergy (run (constructor opts file) evs) +
     totalRamEnergy (run (constructor opts file) evs) +
     totalGpuEnergy (run (constructor opts file) evs) \<and>
   (measurements (measurePowerAndEnergy s t hw) \<noteq> measurements s \<longrightarrow>
      totalEnergy (measurePowerAndEnergy s t hw) =
        totalCpuEnergy (measurePowerAndEnergy s t hw) +
        totalRamEnergy (measurePowerAndEnergy s t hw) +
        totalGpuEnergy (measurePowerAndEnergy s t hw))"
proof -
  have "in_sync (run (constructor opts file) evs)"
    by (simp add: run_in_sync constructor_in_sync)
  then show ?thesis
    using measure_resync [of s t hw] by (simp add: in_sync_def)
qed

theorem total_is_sum_of_accumulators_witness:
  "measurements (measurePowerAndEnergy (running\<lparr>totalEnergy := 1\<rparr>) 17000 desktop)
     \<noteq> measurements (running\<lparr>totalEnergy := 1\<rparr>) \<and>
   totalEnergy (measurePowerAndEnergy (running\<lparr>totalEnergy := 1\<rparr>) 17000 desktop) =
     totalCpuEnergy (measurePowerAndEnergy (running\<lparr>totalEnergy := 1\<rparr>) 17000 desktop) +
     totalRamEnergy (measurePowerAndEnergy (running\<lparr>totalEnergy := 1\<rparr>) 17000 desktop) +
     totalGpuEnergy (measurePowerAndEnergy (running\<lparr>totalEnergy := 1\<rparr>) 17000 desktop)"
proof -
  have h: "measurements (measurePowerAndEnergy (running\<lparr>totalEnergy := 1\<rparr>) 17000 desktop)
     \<noteq> measurements (running\<lparr>totalEnergy := 1\<rparr>)"
    by (simp add: running_eq tracker_defs desktop_def)
  show ?thesis
    using h total_is_sum_of_accumulators [of noOptions None "[]" "running\<lparr>totalEnergy := 1\<rparr>" 17000 desktop]
    by blast
qed

section \<open>Conservation of energy\<close>














section \<open>Stopping a tracker that is not running\<close>

text \<open>
  C9: \<open>stop()\<close> on a tracker that is not tracking (never started, or already stopped)
  writes one warning, returns \<open>0\<close> and changes nothing else: the three energy
  accumulators, the total and the list of measurements are those of before the call.
\<close>

theorem stop_not_running:
  "\<not> isTracking s \<Longrightarrow>
   stop s measurementTime hw now = (0, s\<lparr>console := console s @ [ConsoleWarn NotRunning]\<rparr>) \<and>
   totalCpuEnergy (snd (stop s measurementTime hw now)) = totalCpuEnergy s \<and>
   totalRamEnergy (snd (stop s measurementTime hw now)) = totalRamEnergy s \<and>
   totalGpuEnergy (snd (stop s measurementTime hw now)) = totalGpuEnergy s \<and>
   totalEnergy (snd (stop s measurementTime hw now)) = totalEnergy s \<and>
   measurements (snd (stop s measurementTime hw now)) = measurements s"
  by (simp add: stop_def say_def)

theorem stop_not_running_witness:
  "\<not> isTracking (constructor noOptions None) \<and>
   stop (constructor noOptions None) 0 desktop 0 =
     (0, (constructor noOptions None)\<lparr>console := [ConsoleWarn CouldNotLoadData, ConsoleWarn NotRunning]\<rparr>)"
proof -
  have h: "\<not> isTracking (constructor noOptions None)"
    by (simp add: tracker_defs)
  have c: "console (constructor noOptions None) = [ConsoleWarn CouldNotLoadData]"
    by (simp add: tracker_defs)
  show ?thesis
    using h c stop_not_running [OF h, of 0 desktop 0] by simp
qed

section \<open>Carbon intensity of an unknown country\<close>



section \<open>What one tick does\<close>

lemma measure_timer_flag:
  "measurePowerAndEnergy (s\<lparr>measurementInterval := b\<rparr>) t hw =
   (measurePowerAndEnergy s t hw)\<lparr>measurementInterval := b\<rparr>"
  by (simp add: measurePowerAndEnergy_def timeSinceLastMeasurement_def say_def Let_def
      split: prod.splits option.splits)

lemmas measure_defs =
  measurePowerAndEnergy_def sampled_def estimateCPUPower_def Let_def say_def


lemma tick_stamp:
  "isTracking s \<Longrightarrow> sampled hw \<Longrightarrow>
   timestamp (last (measurements (measurePowerAndEnergy s t hw))) = t \<and>
   duration (last (measurements (measurePowerAndEnergy s t hw))) = timeSinceLastMeasurement s t"
  by (auto simp: measure_defs split: prod.splits option.splits)

lemma tick_watts:
  "isTracking s \<Longrightarrow> hw_tdp hw = Some tdp \<Longrightarrow> hw_ram hw = Some r \<Longrightarrow> hw_gpu hw = Some g \<Longrightarrow>
   cpuPower (last (measurements (measurePowerAndEnergy s t hw))) =
     js_or (forceCpuPower s) (tdp * (1 / 2 + fst (getCPUUsage (hw_load hw)) / 100 * (1 / 2))) \<and>
   ramPower (last (measurements (measurePowerAndEnergy s t hw))) = js_or (forceRamPower s) r \<and>
   gpuPower (last (measurements (measurePowerAndEnergy s t hw))) = js_or (forceGpuPower s) g"
  by (auto simp: measure_defs split: prod.splits option.splits)

lemma tick_increments:
  "isTracking s \<Longrightarrow> sampled hw \<Longrightarrow>
   cpuEnergy (last (measurements (measurePowerAndEnergy s t hw))) =
     cpuPower (last (measurements (measurePowerAndEnergy s t hw))) *
     duration (last (measurements (measurePowerAndEnergy s t hw))) / 3600000 * pue s \<and>
   ramEnergy (last (measurements (measurePowerAndEnergy s t hw))) =
     ramPower (last (measurements (measurePowerAndEnergy s t hw))) *
     duration (last (measurements (measurePowerAndEnergy s t hw))) / 3600000 * pue s \<and>
   gpuEnergy (last (measurements (measurePowerAndEnergy s t hw))) =
     gpuPower (last (measurements (measurePowerAndEnergy s t hw))) *
     duration (last (measurements (measurePowerAndEnergy s t hw))) / 3600000 * pue s"
  by (auto simp: measure_defs split: prod.splits option.splits)

lemma tick_accumulates:
  "isTracking s \<Longrightarrow> sampled hw \<Longrightarrow>
   totalCpuEnergy (measurePowerAndEnergy s t hw) =
     totalCpuEnergy s + cpuEnergy (last (measurements (measurePowerAndEnergy s t hw))) \<and>
   totalRamEnergy (measurePowerAndEnergy s t hw) =
     totalRamEnergy s + ramEnergy (last (measurements (measurePowerAndEnergy s t hw))) \<and>
   totalGpuEnergy (measurePowerAndEnergy s t hw) =
     totalGpuEnergy s + gpuEnergy (last (measurements (measurePowerAndEnergy s t hw)))"
  by (auto simp: measure_defs split: prod.splits option.splits)

lemma tick_failed:
  "isTracking s \<Longrightarrow> \<not> sampled hw \<Longrightarrow>
   measurePowerAndEnergy s t hw =
     s\<lparr>console := console s @ snd (getCPUUsage (hw_load hw)) @ [ConsoleError FailedToMeasure]\<rparr>"
  by (auto simp: measure_defs split: prod.splits option.splits)

lemma tick_idle: "\<not> isTracking s \<Longrightarrow> measurePowerAndEnergy s t hw = s"
  by (simp add: measurePowerAndEnergy_def)


section \<open>Monotonicity of the accumulators\<close>

lemma js_or_nonneg: "nonneg a \<Longrightarrow> 0 \<le> b \<Longrightarrow> 0 \<le> js_or a b"
  by (simp add: nonneg_def js_or_def split: option.splits)

lemma usage_nonneg: "nonneg l \<Longrightarrow> 0 \<le> fst (getCPUUsage l)"
  by (simp add: nonneg_def getCPUUsage_def split: option.splits)

lemma elapsed_nonneg:
  "0 \<le> measurePowerInterval s \<Longrightarrow>
   (measurements s \<noteq> [] \<longrightarrow> timestamp (last (measurements s)) \<le> t) \<Longrightarrow>
   0 \<le> timeSinceLastMeasurement s t"
  by (simp add: timeSinceLastMeasurement_def)

lemma tick_watts_nonneg:
  assumes "isTracking s" "sampled hw" "nonneg_config s" "nonneg_reading hw"
  shows "0 \<le> cpuPower (last (measurements (measurePowerAndEnergy s t hw))) \<and>
         0 \<le> ramPower (last (measurements (measurePowerAndEnergy s t hw))) \<and>
         0 \<le> gpuPower (last (measurements (measurePowerAndEnergy s t hw)))"
proof -
  from assms(2) obtain tdp r g
    where v: "hw_tdp hw = Some tdp" "hw_ram hw = Some r" "hw_gpu hw = Some g"
    by (auto simp: sampled_def)
  with assms(4) have p: "0 \<le> tdp" "0 \<le> r" "0 \<le> g"
    by (simp_all add: nonneg_reading_def nonneg_def)
  have u: "0 \<le> fst (getCPUUsage (hw_load hw))"
    using assms(4) by (simp add: nonneg_reading_def usage_nonneg)
  have c: "0 \<le> tdp * (1 / 2 + fst (getCPUUsage (hw_load hw)) / 100 * (1 / 2))"
    using p(1) u by simp
  show ?thesis
    using tick_watts [OF assms(1) v, of t] assms(3) p c
    by (simp add: nonneg_config_def js_or_nonneg)
qed

lemma tick_monotone:
  assumes "nonneg_config s" "nonneg_reading hw"
    "measurements s \<noteq> [] \<longrightarrow> timestamp (last (measurements s)) \<le> t"
  shows "totalCpuEnergy s \<le> totalCpuEnergy (measurePowerAndEnergy s t hw) \<and>
         totalRamEnergy s \<le> totalRamEnergy (measurePowerAndEnergy s t hw) \<and>
         totalGpuEnergy s \<le> totalGpuEnergy (measurePowerAndEnergy s t hw)"
proof (cases "isTracking s")
  case False
  then show ?thesis by (simp add: tick_idle)
next
  case True
  show ?thesis
  proof (cases "sampled hw")
    case False
    with True show ?thesis by (simp add: tick_failed)
  next
    case sampled: True
    let ?m = "last (measurements (measurePowerAndEnergy s t hw))"
    have d: "0 \<le> duration ?m"
      using tick_stamp [OF True sampled, of t] assms(1,3)
      by (simp add: nonneg_config_def elapsed_nonneg)
    have w: "0 \<le> cpuPower ?m \<and> 0 \<le> ramPower ?m \<and> 0 \<le> gpuPower ?m"
      using tick_watts_nonneg [OF True sampled assms(1,2)] .
    have p: "0 \<le> pue s"
      using assms(1) by (simp add: nonneg_config_def)
    have e: "0 \<le> x * duration ?m / 3600000 * pue s" if "0 \<le> x" for x
      using that d p by (intro mult_nonneg_nonneg divide_nonneg_nonneg) simp_all
    have inc: "cpuEnergy ?m = cpuPower ?m * duration ?m / 3600000 * pue s"
      "ramEnergy ?m = ramPower ?m * duration ?m / 3600000 * pue s"
      "gpuEnergy ?m = gpuPower ?m * duration ?m / 3600000 * pue s"
      using tick_increments [OF True sampled, of t] by blast+
    have "0 \<le> cpuEnergy ?m" "0 \<le> ramEnergy ?m" "0 \<le> gpuEnergy ?m"
      using w e inc by presburger+
    then show ?thesis
      using tick_accumulates [OF True sampled, of t] by simp
  qed
qed

lemma stop_accumulators:
  "totalCpuEnergy (snd (stop s t hw now)) = totalCpuEnergy (measurePowerAndEnergy s t hw) \<and>
   totalRamEnergy (snd (stop s t hw now)) = totalRamEnergy (measurePowerAndEnergy s t hw) \<and>
   totalGpuEnergy (snd (stop s t hw now)) = totalGpuEnergy (measurePowerAndEnergy s t hw) \<and>
   totalEnergy (snd (stop s t hw now)) = totalEnergy (measurePowerAndEnergy s t hw) \<and>
   measurements (snd (stop s t hw now)) = measurements (measurePowerAndEnergy s t hw)"
  by (simp add: stop_def Let_def say_def measure_timer_flag tick_idle
      split: option.splits prod.splits)

text \<open>
  C3, as the code has it: a tick, be it a timer tick, the first tick or the final tick made
  by \<open>stop()\<close>, decreases none of the cpu, ram and gpu accumulators provided that the
  clock reading of the tick is not earlier than the timestamp of the previous
  measurement, and that the PUE, the interval, the overrides and the values reported by
  the hardware tracker are not negative. The elapsed time is not clamped, so that
  without the first condition the accumulators do decrease.
\<close>

theorem accumulators_monotone:
  assumes "nonneg_config s" "nonneg_reading hw"
    "measurements s \<noteq> [] \<longrightarrow> timestamp (last (measurements s)) \<le> t"
  shows "totalCpuEnergy s \<le> totalCpuEnergy (measurePowerAndEnergy s t hw) \<and>
         totalRamEnergy s \<le> totalRamEnergy (measurePowerAndEnergy s t hw) \<and>
         totalGpuEnergy s \<le> totalGpuEnergy (measurePowerAndEnergy s t hw) \<and>
         totalCpuEnergy s \<le> totalCpuEnergy (snd (stop s t hw now)) \<and>
         totalRamEnergy s \<le> totalRamEnergy (snd (stop s t hw now)) \<and>
         totalGpuEnergy s \<le> totalGpuEnergy (snd (stop s t hw now))"
  using tick_monotone [OF assms] stop_accumulators [of s t hw now] by simp

theorem accumulators_monotone_witness:
  "nonneg_config running \<and> nonneg_reading desktop \<and>
   measurements running \<noteq> [] \<and> timestamp (last (measurements running)) \<le> 17000 \<and>
   totalCpuEnergy running \<le> totalCpuEnergy (measurePowerAndEnergy running 17000 desktop) \<and>
   totalCpuEnergy running \<le> totalCpuEnergy (snd (stop running 17000 desktop 17000))"
proof -
  have a: "nonneg_config running"
    by (simp add: nonneg_config_def nonneg_def running_eq)
  have b: "nonneg_reading desktop"
    by (simp add: nonneg_reading_def nonneg_def desktop_def)
  have c: "measurements running \<noteq> [] \<and> timestamp (last (measurements running)) \<le> 17000"
    by (simp add: running_eq)
  then have c': "measurements running \<noteq> [] \<longrightarrow> timestamp (last (measurements running)) \<le> 17000"
    by simp
  show ?thesis
    using a b c accumulators_monotone [OF a b c', of 17000] by simp
qed

theorem accumulators_monotone_counterexample:
  "isTracking running \<and>
   totalCpuEnergy (step running (TimerEv 1000 desktop)) < totalCpuEnergy running \<and>
   totalRamEnergy (step running (TimerEv 1000 desktop)) < totalRamEnergy running \<and>
   totalGpuEnergy (step running (TimerEv 1000 desktop)) < totalGpuEnergy running"
  by (simp add: running_eq tracker_defs desktop_def)

section \<open>The elapsed time of a tick\<close>

text \<open>
  C4, as the code has it: a tick that records a measurement takes as elapsed time the
  configured interval, in seconds, when no measurement was recorded before, and otherwise
  the difference between its clock reading and the timestamp of the previous
  measurement, in seconds; this is the value recorded and the value used for the three
  increments. There is no clamping: the value equals \<open>max(0, now - last)\<close> exactly when
  the clock has not gone backwards.
\<close>

theorem elapsed_of_tick:
  assumes "isTracking s" "sampled hw"
  shows "duration (last (measurements (measurePowerAndEnergy s t hw))) =
           (if measurements s = [] then measurePowerInterval s / 1000
            else real_of_int (t - timestamp (last (measurements s))) / 1000) \<and>
         cpuEnergy (last (measurements (measurePowerAndEnergy s t hw))) =
           cpuPower (last (measurements (measurePowerAndEnergy s t hw))) *
           duration (last (measurements (measurePowerAndEnergy s t hw))) / 3600000 * pue s \<and>
         ramEnergy (last (measurements (measurePowerAndEnergy s t hw))) =
           ramPower (last (measurements (measurePowerAndEnergy s t hw))) *
           duration (last (measurements (measurePowerAndEnergy s t hw))) / 3600000 * pue s \<and>
         gpuEnergy (last (measurements (measurePowerAndEnergy s t hw))) =
           gpuPower (last (measurements (measurePowerAndEnergy s t hw))) *
           duration (last (measurements (measurePowerAndEnergy s t hw))) / 3600000 * pue s \<and>
         (measurements s \<noteq> [] \<and> timestamp (last (measurements s)) \<le> t \<longrightarrow>
            duration (last (measurements (measurePowerAndEnergy s t hw))) =
              max 0 (real_of_int (t - timestamp (last (measurements s))) / 1000))"
  using tick_stamp [OF assms, of t] tick_increments [OF assms, of t]
  by (simp add: timeSinceLastMeasurement_def)

theorem elapsed_of_tick_witness:
  "isTracking running \<and> sampled desktop \<and>
   measurements running \<noteq> [] \<and> timestamp (last (measurements running)) \<le> 17000 \<and>
   duration (last (measurements (measurePowerAndEnergy running 17000 desktop))) = 15 \<and>
   duration (last (measurements (measurePowerAndEnergy running 17000 desktop))) =
     max 0 (real_of_int (17000 - timestamp (last (measurements running))) / 1000)"
proof -
  have a: "isTracking running"
    by (simp add: running_eq)
  have b: "sampled desktop"
    by (simp add: sampled_def desktop_def)
  have c: "measurements running \<noteq> [] \<and> timestamp (last (measurements running)) = 2000"
    by (simp add: running_eq)
  show ?thesis
    using a b c elapsed_of_tick [OF a b, of 17000] by simp
qed

theorem elapsed_of_tick_counterexample:
  "isTracking running \<and> timestamp (last (measurements running)) = 2000 \<and>
   duration (last (measurements (step running (TimerEv 1000 desktop)))) = - 1 \<and>
   duration (last (measurements (step running (TimerEv 1000 desktop)))) \<noteq>
     max 0 (real_of_int (1000 - timestamp (last (measurements running))) / 1000)"
  by (simp add: running_eq tracker_defs desktop_def)

section \<open>Failure of the hardware tracker during a tick\<close>




section \<open>Starting and stopping at once\<close>







section \<open>The region and the carbon intensity\<close>

lemma emissions_ignore_region:
  "map_option (\<lambda>(res, out). emissions res)
     (calculateFinalEmissions (s\<lparr>locationInfo := Some (loc\<lparr>loc_region := r\<rparr>)\<rparr>)) =
   map_option (\<lambda>(res, out). emissions res)
     (calculateFinalEmissions (s\<lparr>locationInfo := Some loc\<rparr>))"
  by (simp add: calculateFinalEmissions_def calculateEmissions_def Let_def split: prod.splits)

text \<open>
  C6: the claim is that a recognised region takes precedence over the country in the
  intensity used for the final emissions. The final emissions are computed from the
  country code alone: a tracker configured for the United States and California, with a
  table that gives the United States 475 gCO2/kWh, returns the same emissions as one
  configured without a region, at 475 gCO2/kWh, although
  \<open>getRegionalCarbonIntensity\<close> gives 300 gCO2/kWh for California.
\<close>

theorem region_ignored_by_emissions:
  "fst (stop (start (constructor (located (Some ''CA'')) (Some usaTable)) (InitOk unitedStates) 0 0 desktop)
          15000 desktop 15000) = 475 / 1000 * (7 / 3840) \<and>
   fst (stop (start (constructor (located None) (Some usaTable)) (InitOk unitedStates) 0 0 desktop)
          15000 desktop 15000) = 475 / 1000 * (7 / 3840) \<and>
   loc_region (the (locationInfo
     (start (constructor (located (Some ''CA'')) (Some usaTable)) (InitOk unitedStates) 0 0 desktop))) = Some ''CA'' \<and>
   getRegionalCarbonIntensity ''USA'' (Some ''CA'') = Some 300 \<and>
   getRegionalCarbonIntensity ''USA'' None = None"
  by (simp add: tracker_defs located_def usaTable_def desktop_def unitedStates_def
      getRegionalCarbonIntensity_def usStates_def)

section \<open>Power overrides\<close>

lemma nonzero_override_used:
  assumes "isTracking s" "sampled hw"
  shows "(forceCpuPower s = Some w \<and> w \<noteq> 0 \<longrightarrow>
            cpuPower (last (measurements (measurePowerAndEnergy s t hw))) = w) \<and>
         (forceRamPower s = Some w \<and> w \<noteq> 0 \<longrightarrow>
            ramPower (last (measurements (measurePowerAndEnergy s t hw))) = w) \<and>
         (forceGpuPower s = Some w \<and> w \<noteq> 0 \<longrightarrow>
            gpuPower (last (measurements (measurePowerAndEnergy s t hw))) = w)"
proof -
  from assms(2) obtain tdp r g
    where "hw_tdp hw = Some tdp" "hw_ram hw = Some r" "hw_gpu hw = Some g"
    by (auto simp: sampled_def)
  from tick_watts [OF assms(1) this, of t] show ?thesis
    by (simp add: js_or_def)
qed

text \<open>
  C7: the claim is that an override of any value, \<open>0\<close> W included, is used on every
  tick in place of what the hardware tracker reports. An override of \<open>0\<close> W is dropped
  by the constructor: with cpu 65 W, ram 10 W and gpu 0 W configured, and a hardware
  tracker that reports 150 W for the gpu, the tick records 150 W for the gpu and
  accumulates the energy of 225 W, not of 75 W.
\<close>

theorem zero_watt_override_ignored:
  "opt_forceGpuPower (calibrated None) = Some 0 \<and>
   forceGpuPower (constructor (calibrated None) (Some usaTable)) = None \<and>
   map gpuPower (measurements
     (start (constructor (calibrated None) (Some usaTable)) (InitOk unitedStates) 0 0 desktop)) = [150] \<and>
   totalEnergy (start (constructor (calibrated None) (Some usaTable)) (InitOk unitedStates) 0 0 desktop) =
     (65 + 10 + 150) * 1 / 3600 / 1000"
  by (simp add: tracker_defs calibrated_def usaTable_def desktop_def unitedStates_def)

end
